theory Spec2Isabelle
  imports Main "HOL-Library.Sublist"
begin

section \<open>Python strings\<close>

text \<open>
  A Python \<open>str\<close> is a sequence of Unicode code points, so it is a list of
  naturals here (every code point is below \<open>0x110000\<close>; the theorems hold for all
  lists). A string literal of the source, which is ASCII throughout \<open>agent.py\<close>, is
  written \<open>lit ''...''\<close>; the apostrophe is \<open>lit [CHR 0x27]\<close>.
\<close>

type_synonym codepoint = nat

type_synonym str = "codepoint list"

definition lit :: "string \<Rightarrow> str" where
  "lit cs = map of_char cs"

subsection \<open>\<open>str.lower()\<close>\<close>

text \<open>
  \<open>city.lower()\<close> is the interpreter's, not the repository's. CPython lowers a
  string of ASCII code points byte by byte (\<open>A\<close>..\<open>Z\<close> move up by 32, everything else
  stays). Any other string goes code point by code point through the full lowercase
  mapping of the Unicode character database, except that capital sigma (\<open>U+03A3\<close>)
  becomes final sigma (\<open>U+03C2\<close>) when a cased letter precedes it and none follows it,
  case-ignorable code points skipped on both sides, and small sigma (\<open>U+03C3\<close>)
  otherwise. The three tables of the database are data of the interpreter's Unicode
  version and are a parameter. The surrogate code points \<open>U+D800\<close>..\<open>U+DFFF\<close> are
  left out of the parameter: the standard fixes their general category (\<open>Cs\<close>) for
  all its versions and gives none of them a case mapping, so each is its own lowercase.
\<close>

record unicode_db =
  to_lower_full :: "codepoint \<Rightarrow> codepoint list"
  is_cased :: "codepoint \<Rightarrow> bool"
  is_case_ignorable :: "codepoint \<Rightarrow> bool"

definition is_ascii :: "str \<Rightarrow> bool" where
  "is_ascii s = list_all (\<lambda>c. c < 128) s"

definition ascii_tolower :: "codepoint \<Rightarrow> codepoint" where
  "ascii_tolower c = (if 65 \<le> c \<and> c \<le> 90 then c + 32 else c)"

text \<open>\<open>before\<close> holds the code points to the left, the nearest one first.\<close>

definition final_sigma :: "unicode_db \<Rightarrow> str \<Rightarrow> str \<Rightarrow> bool" where
  "final_sigma db before after =
     ((case dropWhile (is_case_ignorable db) before of
         [] \<Rightarrow> False
       | c # _ \<Rightarrow> is_cased db c) \<and>
      (case dropWhile (is_case_ignorable db) after of
         [] \<Rightarrow> True
       | c # _ \<Rightarrow> \<not> is_cased db c))"

definition is_surrogate :: "codepoint \<Rightarrow> bool" where
  "is_surrogate c = (0xD800 \<le> c \<and> c \<le> 0xDFFF)"

definition lower_ucs4 :: "unicode_db \<Rightarrow> str \<Rightarrow> codepoint \<Rightarrow> str \<Rightarrow> str" where
  "lower_ucs4 db before c after =
     (if c = 0x3A3 then [if final_sigma db before after then 0x3C2 else 0x3C3]
      else if is_surrogate c then [c]
      else to_lower_full db c)"

fun do_lower :: "unicode_db \<Rightarrow> str \<Rightarrow> str \<Rightarrow> str" where
  "do_lower db before [] = []"
| "do_lower db before (c # after) =
     lower_ucs4 db before c after @ do_lower db (c # before) after"

definition lower :: "unicode_db \<Rightarrow> str \<Rightarrow> str" where
  "lower db s = (if is_ascii s then map ascii_tolower s else do_lower db [] s)"

section \<open>Dictionaries, exceptions, time\<close>

text \<open>
  Both tools return a \<open>dict\<close> literal with \<open>str\<close> keys and \<open>str\<close> values. It is an
  association list in insertion order, as a Python dict keeps it; \<open>d[k]\<close> is
  \<open>map_of d k\<close>, and \<open>None\<close> there means that the key is absent.
\<close>

type_synonym dict = "(str \<times> str) list"

text \<open>
  An instance of (a subclass of) Python's \<open>Exception\<close>, which is what
  \<open>ZoneInfo(key)\<close> and \<open>datetime.now(tz)\<close> raise (\<open>ZoneInfoNotFoundError\<close>,
  \<open>OSError\<close>, \<open>OverflowError\<close>, \<open>ValueError\<close>). The program reads only \<open>str(e)\<close>.
\<close>

datatype exception = Exception (str_of: str)

text \<open>A time zone that \<open>ZoneInfo\<close> has resolved, named by its key.\<close>

datatype tzinfo = ZoneInfo (zone_key: str)

text \<open>
  An aware \<open>datetime\<close>, with the fields that the program's format reads:
  \<open>tzname\<close> is what \<open>dt.tzname()\<close> returns and \<open>utcoffset\<close> is \<open>dt.utcoffset()\<close> in
  seconds (the offsets of a \<open>ZoneInfo\<close> are whole seconds).
\<close>

record datetime =
  year :: nat
  month :: nat
  day :: nat
  hour :: nat
  minute :: nat
  second :: nat
  tzname :: str
  utcoffset :: int

text \<open>The range checks of the \<open>datetime\<close> constructor: every \<open>datetime\<close> object passes them.\<close>

definition is_leap :: "nat \<Rightarrow> bool" where
  "is_leap y = (y mod 4 = 0 \<and> (y mod 100 \<noteq> 0 \<or> y mod 400 = 0))"

definition days_in_month :: "nat \<Rightarrow> nat \<Rightarrow> nat" where
  "days_in_month y m =
     (if m = 2 then (if is_leap y then 29 else 28)
      else if m = 4 \<or> m = 6 \<or> m = 9 \<or> m = 11 then 30
      else 31)"

definition valid_datetime :: "datetime \<Rightarrow> bool" where
  "valid_datetime dt =
     (1 \<le> year dt \<and> year dt \<le> 9999 \<and>
      1 \<le> month dt \<and> month dt \<le> 12 \<and>
      1 \<le> day dt \<and> day dt \<le> days_in_month (year dt) (month dt) \<and>
      hour dt < 24 \<and> minute dt < 60 \<and> second dt < 60)"

subsection \<open>\<open>strftime\<close>\<close>

text \<open>
  \<open>decimal\<close> is \<open>%d\<close> on a natural and \<open>zero_pad w\<close> is \<open>%0wd\<close>. The year is padded
  to four digits as the Python documentation gives \<open>%Y\<close> (\<open>0001\<close>, ..., \<open>9999\<close>); the
  C library of some platforms leaves a year below 1000 unpadded.
\<close>

fun decimal :: "nat \<Rightarrow> str" where
  "decimal n = (if n < 10 then [48 + n] else decimal (n div 10) @ [48 + n mod 10])"

definition zero_pad :: "nat \<Rightarrow> nat \<Rightarrow> str" where
  "zero_pad w n = replicate (w - length (decimal n)) 48 @ decimal n"

text \<open>
  \<open>%z\<close>: the sign, hours and minutes of the offset, and its seconds when they are not
  zero.
\<close>

definition format_utcoffset :: "int \<Rightarrow> str" where
  "format_utcoffset off =
     (let a = nat \<bar>off\<bar>; h = a div 3600; m = a mod 3600 div 60; s = a mod 60
      in lit (if off < 0 then ''-'' else ''+'') @ zero_pad 2 h @ zero_pad 2 m @
         (if s \<noteq> 0 then zero_pad 2 s else []))"

text \<open>
  The eight directives of the program's pattern and \<open>%%\<close>; any other directive is
  copied as it stands (none occurs in the pattern).
\<close>

definition directive :: "datetime \<Rightarrow> char \<Rightarrow> str" where
  "directive dt d =
     (if d = CHR ''Y'' then zero_pad 4 (year dt)
      else if d = CHR ''m'' then zero_pad 2 (month dt)
      else if d = CHR ''d'' then zero_pad 2 (day dt)
      else if d = CHR ''H'' then zero_pad 2 (hour dt)
      else if d = CHR ''M'' then zero_pad 2 (minute dt)
      else if d = CHR ''S'' then zero_pad 2 (second dt)
      else if d = CHR ''Z'' then tzname dt
      else if d = CHR ''z'' then format_utcoffset (utcoffset dt)
      else if d = CHR ''%'' then lit ''%''
      else lit [CHR ''%'', d])"

fun strftime :: "datetime \<Rightarrow> string \<Rightarrow> str" where
  "strftime dt [] = []"
| "strftime dt [c] = lit [c]"
| "strftime dt (c # d # fs) =
     (if c = CHR ''%'' then directive dt d @ strftime dt fs
      else lit [c] @ strftime dt (d # fs))"

section \<open>The runtime\<close>

text \<open>
  What a call can observe outside the program: the Unicode database behind
  \<open>str.lower()\<close>, the time zone database behind \<open>ZoneInfo(key)\<close>, and the clock
  behind \<open>datetime.datetime.now(tz)\<close>. The last two either return or raise.
\<close>

record runtime =
  unicode :: unicode_db
  zone_info :: "str \<Rightarrow> exception + tzinfo"
  datetime_now :: "tzinfo \<Rightarrow> exception + datetime"

subsection \<open>Standard output\<close>

text \<open>
  \<open>print(line)\<close> writes to \<open>sys.stdout\<close>, which Python opens as UTF-8 with the
  \<open>strict\<close> error handler. UTF-8 encodes every code point but the surrogates, so the
  write raises \<open>UnicodeEncodeError\<close> when the line holds a surrogate and returns
  otherwise. Nothing in the program catches that exception: it leaves the tool that
  printed. The model keeps whether a print raises, not the text that it writes.
\<close>

datatype raised = UnicodeEncodeError

definition utf8_encodable :: "str \<Rightarrow> bool" where
  "utf8_encodable s = list_all (\<lambda>c. \<not> is_surrogate c) s"

definition py_print :: "str \<Rightarrow> raised + unit" where
  "py_print line = (if utf8_encodable line then Inr () else Inl UnicodeEncodeError)"

section \<open>The tools of \<open>multi_tool_agent/agent.py\<close>\<close>

text \<open>
  A tool returns \<open>Inr\<close> of its \<open>dict\<close>, or \<open>Inl\<close> of the exception that leaves it.
  Its first statement prints the city as it was given, between apostrophes; this is
  the \<open>py_print\<close> of the model. Before it returns, a tool prints a second line, built
  from \<open>{result}\<close>: that is the \<open>repr\<close> of the \<open>dict\<close>, which writes every code point
  that is not printable, the surrogates among them, as an ASCII escape. The second line
  is encodable whatever the city is, its print returns, and it is not in the model.
\<close>

definition get_weather :: "runtime \<Rightarrow> str \<Rightarrow> raised + dict" where
  "get_weather rt city =
     (case py_print (lit ''--- Tool: get_weather called with city='' @ lit [CHR 0x27] @ city @
             lit [CHR 0x27] @ lit '' ---'') of
        Inl e \<Rightarrow> Inl e
      | Inr _ \<Rightarrow>
          Inr (if lower (unicode rt) city = lit ''new york'' then
                 [(lit ''status'', lit ''success''),
                  (lit ''report'',
                     lit ''The weather in New York is sunny with a temperature of 25 degrees'' @
                     lit '' Celsius (77 degrees Fahrenheit).'')]
               else
                 [(lit ''status'', lit ''error''),
                  (lit ''error_message'',
                     lit ''Weather information for '' @ lit [CHR 0x27] @ city @ lit [CHR 0x27] @
                     lit '' is not available.'')]))"

text \<open>
  The \<open>try\<close> block is the two nested \<open>case\<close>s on the runtime's calls: an exception of
  \<open>ZoneInfo\<close> or of \<open>now\<close> leaves the block for the \<open>except Exception as e\<close> clause,
  which builds the error result from \<open>str(e)\<close>.
\<close>

definition get_current_time :: "runtime \<Rightarrow> str \<Rightarrow> raised + dict" where
  "get_current_time rt city =
     (case py_print (lit ''--- Tool: get_current_time called with city='' @ lit [CHR 0x27] @
             city @ lit [CHR 0x27] @ lit '' ---'') of
        Inl e \<Rightarrow> Inl e
      | Inr _ \<Rightarrow>
          Inr (if lower (unicode rt) city = lit ''new york'' then
                 (let tz_identifier = lit ''America/New_York'' in
                  case
                    (case zone_info rt tz_identifier of
                       Inl e \<Rightarrow> Inl e
                     | Inr tz \<Rightarrow>
                         (case datetime_now rt tz of
                            Inl e \<Rightarrow> Inl e
                          | Inr now \<Rightarrow>
                              (let report =
                                 lit ''The current time in '' @ city @ lit '' is '' @
                                 strftime now ''%Y-%m-%d %H:%M:%S %Z%z''
                               in Inr [(lit ''status'', lit ''success''),
                                       (lit ''report'', report)])))
                  of
                    Inr result \<Rightarrow> result
                  | Inl e \<Rightarrow>
                      [(lit ''status'', lit ''error''),
                       (lit ''error_message'',
                          lit ''Error getting time for '' @ city @ lit '': '' @ str_of e)])
               else
                 [(lit ''status'', lit ''error''),
                  (lit ''error_message'',
                     lit ''Sorry, I don't have timezone information for '' @ city @
                     lit ''.'')]))"

section \<open>Properties of results and of timestamps\<close>

text \<open>
  A decimal digit, a date written \<open>YYYY-MM-DD\<close> and a time written \<open>HH:MM:SS\<close>
  (45 is the hyphen, 58 the colon).
\<close>

definition is_digit :: "codepoint \<Rightarrow> bool" where
  "is_digit c = (48 \<le> c \<and> c \<le> 57)"

fun is_date :: "str \<Rightarrow> bool" where
  "is_date [y1, y2, y3, y4, h1, m1, m2, h2, d1, d2] =
     (list_all is_digit [y1, y2, y3, y4, m1, m2, d1, d2] \<and> h1 = 45 \<and> h2 = 45)"
| "is_date _ = False"

fun is_time :: "str \<Rightarrow> bool" where
  "is_time [h1, h2, c1, m1, m2, c2, s1, s2] =
     (list_all is_digit [h1, h2, m1, m2, s1, s2] \<and> c1 = 58 \<and> c2 = 58)"
| "is_time _ = False"

subsection \<open>The city as the only input\<close>




section \<open>Runtimes for the closed examples\<close>

text \<open>
  An excerpt of the Unicode database: the ASCII letters, and the Kelvin sign
  \<open>U+212A\<close>, which is cased and whose lowercase is \<open>k\<close>; every other code point is
  its own lowercase. The case-ignorable code points of the excerpt are the ASCII
  ones. The theorems below hold for every database; this one closes the examples.
\<close>

definition sample_db :: unicode_db where
  "sample_db =
     \<lparr>to_lower_full = (\<lambda>c. if 65 \<le> c \<and> c \<le> 90 then [c + 32]
                             else if c = 0x212A then [0x6B] else [c]),
      is_cased = (\<lambda>c. 65 \<le> c \<and> c \<le> 90 \<or> 97 \<le> c \<and> c \<le> 122 \<or> c = 0x212A),
      is_case_ignorable = (\<lambda>c. c = 0x27 \<or> c = 0x2E \<or> c = 0x3A \<or> c = 0x5E \<or> c = 0x60)\<rparr>"

text \<open>9 March 2024, 07:05:00 in New York: Eastern Standard Time, five hours behind UTC.\<close>

definition sample_now :: datetime where
  "sample_now =
     \<lparr>year = 2024, month = 3, day = 9, hour = 7, minute = 5, second = 0,
      tzname = lit ''EST'', utcoffset = - 18000\<rparr>"

text \<open>A runtime where every zone resolves and the clock reads \<open>sample_now\<close>.\<close>

definition sample_runtime :: runtime where
  "sample_runtime =
     \<lparr>unicode = sample_db,
      zone_info = (\<lambda>key. Inr (ZoneInfo key)),
      datetime_now = (\<lambda>tz. Inr sample_now)\<rparr>"

text \<open>
  A runtime with no time zone database: \<open>ZoneInfo(key)\<close> raises
  \<open>ZoneInfoNotFoundError\<close>, a \<open>KeyError\<close>, whose \<open>str\<close> is its message in quotes.
\<close>

definition runtime_without_tzdata :: runtime where
  "runtime_without_tzdata =
     \<lparr>unicode = sample_db,
      zone_info = (\<lambda>key. Inl (Exception
        (lit [CHR 0x27] @ lit ''No time zone found with key '' @ key @ lit [CHR 0x27]))),
      datetime_now = (\<lambda>tz. Inr sample_now)\<rparr>"

text \<open>A runtime where the zone resolves and the clock read raises \<open>OSError\<close>.\<close>

definition runtime_with_failing_clock :: runtime where
  "runtime_with_failing_clock =
     \<lparr>unicode = sample_db,
      zone_info = (\<lambda>key. Inr (ZoneInfo key)),
      datetime_now = (\<lambda>tz. Inl (Exception (lit ''[Errno 22] Invalid argument'')))\<rparr>"

section \<open>Lowering ASCII strings\<close>

text \<open>
  On a string of ASCII code points \<open>lower\<close> does not consult the database, so these
  hold in every runtime.
\<close>

lemma lower_ascii: "is_ascii s \<Longrightarrow> lower db s = map ascii_tolower s"
  by (simp add: lower_def)

lemma lower_New_York: "lower db (lit ''New York'') = lit ''new york''"
  by (simp add: lower_def lit_def is_ascii_def ascii_tolower_def)

lemma lower_NEW_YORK: "lower db (lit ''NEW YORK'') = lit ''new york''"
  by (simp add: lower_def lit_def is_ascii_def ascii_tolower_def)

lemma lower_new_york: "lower db (lit ''new york'') = lit ''new york''"
  by (simp add: lower_def lit_def is_ascii_def ascii_tolower_def)

lemma lower_London: "lower db (lit ''London'') \<noteq> lit ''new york''"
  by (simp add: lower_def lit_def is_ascii_def ascii_tolower_def)

lemma lower_padded: "lower db (lit '' new york '') \<noteq> lit ''new york''"
  by (simp add: lower_def lit_def is_ascii_def ascii_tolower_def)

lemma lower_full_stop: "lower db (lit ''new york.'') \<noteq> lit ''new york''"
  by (simp add: lower_def lit_def is_ascii_def ascii_tolower_def)

text \<open>
  A string with a code point outside ASCII goes through the database:
  \<open>NEW YOR\<close> followed by the Kelvin sign lowers to \<open>new york\<close>.
\<close>

lemma lower_Kelvin: "lower sample_db (lit ''NEW YOR'' @ [0x212A]) = lit ''new york''"
  by (simp add: lower_def lit_def is_ascii_def lower_ucs4_def is_surrogate_def sample_db_def)

section \<open>The keys and the status values are distinct\<close>

lemma keys_distinct:
  "lit ''status'' \<noteq> lit ''report''"
  "lit ''status'' \<noteq> lit ''error_message''"
  "lit ''report'' \<noteq> lit ''status''"
  "lit ''report'' \<noteq> lit ''error_message''"
  "lit ''error_message'' \<noteq> lit ''status''"
  "lit ''error_message'' \<noteq> lit ''report''"
  "lit ''success'' \<noteq> lit ''error''"
  "lit ''error'' \<noteq> lit ''success''"
  by (simp_all add: lit_def)

lemma lit_nonempty: "cs \<noteq> [] \<Longrightarrow> lit cs \<noteq> []"
  by (simp add: lit_def)

section \<open>Formatting\<close>

declare decimal.simps [simp del]

declare strftime.simps [simp del]

lemma decimal_one_digit: "n < 10 \<Longrightarrow> decimal n = [48 + n]"
  by (subst decimal.simps) simp

lemma decimal_more_digits: "10 \<le> n \<Longrightarrow> decimal n = decimal (n div 10) @ [48 + n mod 10]"
  by (subst decimal.simps) simp

lemma div_10_10: "(n::nat) div 10 div 10 = n div 100"
  using div_mult2_eq [of n 10 10] by simp

lemma div_10_100: "(n::nat) div 10 div 100 = n div 1000"
  using div_mult2_eq [of n 10 100] by simp

lemma replicate_2: "replicate 2 x = [x, x]"
  by (simp add: numeral_2_eq_2)

lemma replicate_3: "replicate 3 x = [x, x, x]"
  by (simp add: numeral_3_eq_3)

lemma decimal_two_digits:
  "10 \<le> n \<Longrightarrow> n < 100 \<Longrightarrow> decimal n = [48 + n div 10, 48 + n mod 10]"
  by (simp add: decimal_more_digits decimal_one_digit)

lemma decimal_three_digits:
  "100 \<le> n \<Longrightarrow> n < 1000 \<Longrightarrow>
   decimal n = [48 + n div 100, 48 + n div 10 mod 10, 48 + n mod 10]"
  by (simp add: decimal_more_digits [of n] decimal_two_digits div_10_10)

lemma decimal_four_digits:
  "1000 \<le> n \<Longrightarrow> n < 10000 \<Longrightarrow>
   decimal n = [48 + n div 1000, 48 + n div 100 mod 10, 48 + n div 10 mod 10, 48 + n mod 10]"
  by (simp add: decimal_more_digits [of n] decimal_three_digits div_10_10 div_10_100)

lemma zero_pad_2: "n < 100 \<Longrightarrow> zero_pad 2 n = [48 + n div 10, 48 + n mod 10]"
  by (cases "n < 10") (simp_all add: zero_pad_def decimal_one_digit decimal_two_digits)

lemma zero_pad_4:
  assumes "n < 10000"
  shows "zero_pad 4 n =
    [48 + n div 1000, 48 + n div 100 mod 10, 48 + n div 10 mod 10, 48 + n mod 10]"
proof -
  consider "n < 10" | "10 \<le> n" "n < 100" | "100 \<le> n" "n < 1000" | "1000 \<le> n"
    by linarith
  then show ?thesis
  proof cases
    case 1
    then show ?thesis by (simp add: zero_pad_def decimal_one_digit replicate_3)
  next
    case 2
    then show ?thesis by (simp add: zero_pad_def decimal_two_digits replicate_2)
  next
    case 3
    then show ?thesis by (simp add: zero_pad_def decimal_three_digits)
  next
    case 4
    with assms show ?thesis by (simp add: zero_pad_def decimal_four_digits)
  qed
qed

text \<open>
  From the year 1000 on the padding of \<open>%Y\<close> adds nothing, so there the platforms
  that pad the year and those that do not print the same.
\<close>

lemma zero_pad_4_from_1000: "1000 \<le> n \<Longrightarrow> n < 10000 \<Longrightarrow> zero_pad 4 n = decimal n"
  by (simp add: zero_pad_def decimal_four_digits)

lemma is_digit_units: "is_digit (48 + n mod 10)"
proof -
  have "n mod 10 < 10"
    by simp
  then show ?thesis
    by (simp add: is_digit_def)
qed

lemma is_digit_tens: "n < 100 \<Longrightarrow> is_digit (48 + n div 10)"
  using less_mult_imp_div_less [of n 10 10] by (simp add: is_digit_def)

lemma is_digit_thousands: "n < 10000 \<Longrightarrow> is_digit (48 + n div 1000)"
  using less_mult_imp_div_less [of n 10 1000] by (simp add: is_digit_def)

lemma day_le_31: "d \<le> days_in_month y m \<Longrightarrow> d \<le> 31"
  by (simp add: days_in_month_def split: if_splits)

text \<open>The program's pattern is a date, a space, a time, a space and the zone.\<close>

lemma strftime_pattern:
  "strftime dt ''%Y-%m-%d %H:%M:%S %Z%z'' =
     strftime dt ''%Y-%m-%d'' @ lit '' '' @ strftime dt ''%H:%M:%S'' @ lit '' '' @
     strftime dt ''%Z%z''"
  by (simp add: strftime.simps directive_def)

lemma strftime_zone: "strftime dt ''%Z%z'' = tzname dt @ format_utcoffset (utcoffset dt)"
  by (simp add: strftime.simps directive_def)

lemma is_date_strftime:
  assumes "valid_datetime dt"
  shows "is_date (strftime dt ''%Y-%m-%d'')"
proof -
  from assms have y: "year dt < 10000" and m: "month dt < 100" and "day dt \<le> 31"
    by (auto simp add: valid_datetime_def dest: day_le_31)
  then have d: "day dt < 100"
    by simp
  show ?thesis
    by (simp add: strftime.simps directive_def zero_pad_2 [OF m] zero_pad_2 [OF d] zero_pad_4 [OF y] lit_def
        is_digit_units is_digit_tens [OF m] is_digit_tens [OF d] is_digit_thousands [OF y])
qed

lemma is_time_strftime:
  assumes "valid_datetime dt"
  shows "is_time (strftime dt ''%H:%M:%S'')"
proof -
  from assms have h: "hour dt < 100" and m: "minute dt < 100" and s: "second dt < 100"
    by (simp_all add: valid_datetime_def)
  show ?thesis
    by (simp add: strftime.simps directive_def zero_pad_2 [OF h] zero_pad_2 [OF m] zero_pad_2 [OF s] lit_def
        is_digit_units is_digit_tens [OF h] is_digit_tens [OF m] is_digit_tens [OF s])
qed

lemma valid_sample_now: "valid_datetime sample_now"
  by (simp add: valid_datetime_def sample_now_def days_in_month_def)

lemma strftime_sample_now:
  "strftime sample_now ''%Y-%m-%d %H:%M:%S %Z%z'' = lit ''2024-03-09 07:05:00 EST-0500''"
  by (simp add: strftime.simps directive_def sample_now_def zero_pad_2 zero_pad_4 format_utcoffset_def lit_def)

section \<open>Surrogates and the entry print\<close>

lemma utf8_encodable_append [simp]:
  "utf8_encodable (xs @ ys) = (utf8_encodable xs \<and> utf8_encodable ys)"
  by (simp add: utf8_encodable_def)

lemma utf8_encodable_new_york: "utf8_encodable (lit ''new york'')"
  by (simp add: utf8_encodable_def lit_def is_surrogate_def)

lemma print_get_weather_entry:
  "py_print (lit ''--- Tool: get_weather called with city='' @ lit [CHR 0x27] @ city @
      lit [CHR 0x27] @ lit '' ---'') =
   (if utf8_encodable city then Inr () else Inl UnicodeEncodeError)"
proof -
  have "utf8_encodable (lit ''--- Tool: get_weather called with city='')"
    and "utf8_encodable (lit [CHR 0x27])" and "utf8_encodable (lit '' ---'')"
    by (simp_all add: utf8_encodable_def lit_def is_surrogate_def)
  then show ?thesis
    by (simp add: py_print_def)
qed

lemma print_get_current_time_entry:
  "py_print (lit ''--- Tool: get_current_time called with city='' @ lit [CHR 0x27] @ city @
      lit [CHR 0x27] @ lit '' ---'') =
   (if utf8_encodable city then Inr () else Inl UnicodeEncodeError)"
proof -
  have "utf8_encodable (lit ''--- Tool: get_current_time called with city='')"
    and "utf8_encodable (lit [CHR 0x27])" and "utf8_encodable (lit '' ---'')"
    by (simp_all add: utf8_encodable_def lit_def is_surrogate_def)
  then show ?thesis
    by (simp add: py_print_def)
qed

text \<open>A surrogate in a string is still there after lowering.\<close>

lemma surrogate_not_ascii: "is_surrogate c \<Longrightarrow> \<not> c < 128"
  by (simp add: is_surrogate_def)

lemma is_ascii_encodable: "is_ascii s \<Longrightarrow> utf8_encodable s"
  by (induction s) (auto simp add: is_ascii_def utf8_encodable_def is_surrogate_def)

lemma do_lower_keeps_surrogate:
  "c \<in> set s \<Longrightarrow> is_surrogate c \<Longrightarrow> c \<in> set (do_lower db before s)"
proof (induction s arbitrary: before)
  case Nil
  then show ?case by simp
next
  case (Cons x xs)
  show ?case
  proof (cases "x = c")
    case True
    with Cons.prems have "lower_ucs4 db before x xs = [c]"
      by (simp add: lower_ucs4_def is_surrogate_def)
    then show ?thesis by simp
  next
    case False
    with Cons show ?thesis by simp
  qed
qed

lemma lower_encodable:
  assumes "lower db s = t" and "utf8_encodable t"
  shows "utf8_encodable s"
proof (cases "is_ascii s")
  case True
  then show ?thesis by (rule is_ascii_encodable)
next
  case False
  show ?thesis
  proof (rule ccontr)
    assume "\<not> utf8_encodable s"
    then obtain c where c: "c \<in> set s" "is_surrogate c"
      by (auto simp add: utf8_encodable_def list_all_iff)
    then have "c \<in> set (do_lower db [] s)"
      by (rule do_lower_keeps_surrogate)
    with False assms(1) have "c \<in> set t"
      by (simp add: lower_def)
    with c(2) assms(2) show False
      by (auto simp add: utf8_encodable_def list_all_iff)
  qed
qed

lemma new_york_encodable: "lower db city = lit ''new york'' \<Longrightarrow> utf8_encodable city"
  by (rule lower_encodable [OF _ utf8_encodable_new_york])

lemma lone_surrogate_not_encodable: "\<not> utf8_encodable [0xD800]"
  by (simp add: utf8_encodable_def is_surrogate_def)

lemma lower_lone_surrogate: "lower db [0xD800] \<noteq> lit ''new york''"
  using new_york_encodable [of db "[0xD800]"] lone_surrogate_not_encodable by blast

section \<open>The branches of the tools\<close>

lemma get_weather_raises:
  "\<not> utf8_encodable city \<Longrightarrow> get_weather rt city = Inl UnicodeEncodeError"
  by (simp add: get_weather_def print_get_weather_entry)

lemma get_current_time_raises:
  "\<not> utf8_encodable city \<Longrightarrow> get_current_time rt city = Inl UnicodeEncodeError"
  by (simp add: get_current_time_def print_get_current_time_entry)

lemma weather_supported:
  "lower (unicode rt) city = lit ''new york'' \<Longrightarrow>
   get_weather rt city =
     Inr [(lit ''status'', lit ''success''),
          (lit ''report'',
             lit ''The weather in New York is sunny with a temperature of 25 degrees'' @
             lit '' Celsius (77 degrees Fahrenheit).'')]"
  by (simp add: get_weather_def print_get_weather_entry new_york_encodable)

lemma weather_unsupported:
  "utf8_encodable city \<Longrightarrow> lower (unicode rt) city \<noteq> lit ''new york'' \<Longrightarrow>
   get_weather rt city =
     Inr [(lit ''status'', lit ''error''),
          (lit ''error_message'',
             lit ''Weather information for '' @ lit [CHR 0x27] @ city @ lit [CHR 0x27] @
             lit '' is not available.'')]"
  by (simp add: get_weather_def print_get_weather_entry)

text \<open>
  Past its entry print \<open>get_current_time\<close> has four ways through: the city is not
  supported, the zone does not resolve, the clock read fails, or the time is read.
\<close>

lemma time_unsupported:
  "utf8_encodable city \<Longrightarrow> lower (unicode rt) city \<noteq> lit ''new york'' \<Longrightarrow>
   get_current_time rt city =
     Inr [(lit ''status'', lit ''error''),
          (lit ''error_message'',
             lit ''Sorry, I don't have timezone information for '' @ city @ lit ''.'')]"
  by (simp add: get_current_time_def print_get_current_time_entry)

lemma time_zone_fails:
  "lower (unicode rt) city = lit ''new york'' \<Longrightarrow>
   zone_info rt (lit ''America/New_York'') = Inl e \<Longrightarrow>
   get_current_time rt city =
     Inr [(lit ''status'', lit ''error''),
          (lit ''error_message'',
             lit ''Error getting time for '' @ city @ lit '': '' @ str_of e)]"
  by (simp add: get_current_time_def print_get_current_time_entry new_york_encodable)

lemma time_clock_fails:
  "lower (unicode rt) city = lit ''new york'' \<Longrightarrow>
   zone_info rt (lit ''America/New_York'') = Inr tz \<Longrightarrow>
   datetime_now rt tz = Inl e \<Longrightarrow>
   get_current_time rt city =
     Inr [(lit ''status'', lit ''error''),
          (lit ''error_message'',
             lit ''Error getting time for '' @ city @ lit '': '' @ str_of e)]"
  by (simp add: get_current_time_def print_get_current_time_entry new_york_encodable)

lemma time_read:
  "lower (unicode rt) city = lit ''new york'' \<Longrightarrow>
   zone_info rt (lit ''America/New_York'') = Inr tz \<Longrightarrow>
   datetime_now rt tz = Inr now \<Longrightarrow>
   get_current_time rt city =
     Inr [(lit ''status'', lit ''success''),
          (lit ''report'',
             lit ''The current time in '' @ city @ lit '' is '' @
             strftime now ''%Y-%m-%d %H:%M:%S %Z%z'')]"
  by (simp add: get_current_time_def print_get_current_time_entry new_york_encodable)

text \<open>
  On a city that standard output can encode, each tool returns one of the two results,
  with a text that is not empty.
\<close>

lemma get_weather_result:
  assumes "utf8_encodable city"
  shows
    "(\<exists>r. r \<noteq> [] \<and>
        get_weather rt city = Inr [(lit ''status'', lit ''success''), (lit ''report'', r)]) \<or>
     (\<exists>m. m \<noteq> [] \<and>
        get_weather rt city = Inr [(lit ''status'', lit ''error''), (lit ''error_message'', m)])"
  using assms
  by (cases "lower (unicode rt) city = lit ''new york''")
    (simp_all add: weather_supported weather_unsupported lit_nonempty)

lemma get_current_time_result:
  assumes "utf8_encodable city"
  shows
    "(\<exists>r. r \<noteq> [] \<and>
        get_current_time rt city =
          Inr [(lit ''status'', lit ''success''), (lit ''report'', r)]) \<or>
     (\<exists>m. m \<noteq> [] \<and>
        get_current_time rt city =
          Inr [(lit ''status'', lit ''error''), (lit ''error_message'', m)])"
proof (cases "lower (unicode rt) city = lit ''new york''")
  case False
  with assms show ?thesis
    by (simp add: time_unsupported lit_nonempty)
next
  case supported: True
  show ?thesis
  proof (cases "zone_info rt (lit ''America/New_York'')")
    case (Inl e)
    with supported show ?thesis
      by (simp add: time_zone_fails lit_nonempty)
  next
    case (Inr tz)
    show ?thesis
    proof (cases "datetime_now rt tz")
      case (Inl e)
      with supported Inr show ?thesis
        by (simp add: time_clock_fails lit_nonempty)
    next
      case now: (Inr now)
      with supported Inr show ?thesis
        by (simp add: time_read lit_nonempty)
    qed
  qed
qed

section \<open>Which cities lower to \<open>new york\<close>\<close>










section \<open>Properties of the tools\<close>

subsection \<open>A city that standard output cannot encode\<close>

text \<open>
  The city \<open>'\ud800'\<close> is the string of the one code point \<open>U+D800\<close>, a surrogate
  with no partner. It does not lower to \<open>new york\<close>, and the entry print of either
  tool raises on it, so the tool returns no \<open>dict\<close>. On every other city that has
  no surrogate the lemmas \<open>get_weather_result\<close>, \<open>get_current_time_result\<close>,
  \<open>weather_unsupported\<close> and \<open>time_unsupported\<close> above give the results.
\<close>

text \<open>
  C1. At the city \<open>'\ud800'\<close>, in every runtime, \<open>get_weather\<close> and
  \<open>get_current_time\<close> raise \<open>UnicodeEncodeError\<close>: neither returns a mapping, so
  there is no \<open>status\<close> key to read.
\<close>

theorem tools_raise_on_lone_surrogate:
  "get_weather rt [0xD800] = Inl UnicodeEncodeError \<and>
   get_current_time rt [0xD800] = Inl UnicodeEncodeError"
  by (simp add: get_weather_raises get_current_time_raises lone_surrogate_not_encodable)

text \<open>
  C2. At the city \<open>'\ud800'\<close>, in every runtime, neither tool returns a mapping that
  holds the key \<open>report\<close> or the key \<open>error_message\<close>.
\<close>

theorem no_payload_on_lone_surrogate:
  "\<not> (\<exists>d v. get_weather rt [0xD800] = Inr d \<and>
          (map_of d (lit ''report'') = Some v \<or> map_of d (lit ''error_message'') = Some v)) \<and>
   \<not> (\<exists>d v. get_current_time rt [0xD800] = Inr d \<and>
          (map_of d (lit ''report'') = Some v \<or> map_of d (lit ''error_message'') = Some v))"
  by (simp add: get_weather_raises get_current_time_raises lone_surrogate_not_encodable)

text \<open>
  C3. The lowercase of the city \<open>'\ud800'\<close> is not \<open>new york\<close>, and
  \<open>get_weather\<close> raises on it: it does not return the error result with the message
  \<open>Weather information for '<c>' is not available.\<close>
\<close>

theorem get_weather_lone_surrogate:
  "lower (unicode rt) [0xD800] \<noteq> lit ''new york'' \<and>
   get_weather rt [0xD800] = Inl UnicodeEncodeError \<and>
   get_weather rt [0xD800] \<noteq>
     Inr [(lit ''status'', lit ''error''),
          (lit ''error_message'',
             lit ''Weather information for '' @ lit [CHR 0x27] @ [0xD800] @ lit [CHR 0x27] @
             lit '' is not available.'')]"
  by (simp add: get_weather_raises lone_surrogate_not_encodable lower_lone_surrogate)

text \<open>
  C4. The lowercase of the city \<open>'\ud800'\<close> is not \<open>new york\<close>, and
  \<open>get_current_time\<close> raises on it: it does not return the error result with the
  message \<open>Sorry, I don't have timezone information for <c>.\<close>
\<close>

theorem get_current_time_lone_surrogate:
  "lower (unicode rt) [0xD800] \<noteq> lit ''new york'' \<and>
   get_current_time rt [0xD800] = Inl UnicodeEncodeError \<and>
   get_current_time rt [0xD800] \<noteq>
     Inr [(lit ''status'', lit ''error''),
          (lit ''error_message'',
             lit ''Sorry, I don't have timezone information for '' @ [0xD800] @ lit ''.'')]"
  by (simp add: get_current_time_raises lone_surrogate_not_encodable lower_lone_surrogate)

text \<open>
  C9. The city \<open>'\ud800'\<close> differs from \<open>new york\<close> after lowering, and neither tool
  returns a mapping whose \<open>status\<close> is \<open>error\<close> for it: both raise.
\<close>

theorem lone_surrogate_gets_no_error_result:
  "lower (unicode rt) [0xD800] \<noteq> lit ''new york'' \<and>
   \<not> (\<exists>d. get_weather rt [0xD800] = Inr d \<and>
          map_of d (lit ''status'') = Some (lit ''error'')) \<and>
   \<not> (\<exists>d. get_current_time rt [0xD800] = Inr d \<and>
          map_of d (lit ''status'') = Some (lit ''error''))"
  by (simp add: get_weather_raises get_current_time_raises lone_surrogate_not_encodable
      lower_lone_surrogate)

subsection \<open>The supported city\<close>

text \<open>
  C5. When the lowercase of \<open>city\<close> is \<open>new york\<close> and the time zone resolution
  raises \<open>e\<close>, or the zone resolves and the clock read raises \<open>e\<close>, the exception
  does not leave \<open>get_current_time(city)\<close>: the call returns the error result, and its
  message \<open>Error getting time for <city>: <e>\<close> ends with \<open>str(e)\<close>.
\<close>

theorem get_current_time_catches_failure:
  assumes "lower (unicode rt) city = lit ''new york''"
    and "zone_info rt (lit ''America/New_York'') = Inl e \<or>
         (\<exists>tz. zone_info rt (lit ''America/New_York'') = Inr tz \<and> datetime_now rt tz = Inl e)"
  shows "get_current_time rt city =
     Inr [(lit ''status'', lit ''error''),
          (lit ''error_message'',
             lit ''Error getting time for '' @ city @ lit '': '' @ str_of e)]"
  using assms by (auto simp add: time_zone_fails time_clock_fails)

theorem get_current_time_catches_failure_witness:
  "lower (unicode runtime_without_tzdata) (lit ''New York'') = lit ''new york'' \<and>
   zone_info runtime_without_tzdata (lit ''America/New_York'') =
     Inl (Exception (lit [CHR 0x27] @ lit ''No time zone found with key America/New_York'' @
       lit [CHR 0x27])) \<and>
   get_current_time runtime_without_tzdata (lit ''New York'') =
     Inr [(lit ''status'', lit ''error''),
          (lit ''error_message'',
             lit ''Error getting time for New York: 'No time zone found with key America/New_York'' @
             lit [CHR 0x27])] \<and>
   lower (unicode runtime_with_failing_clock) (lit ''new york'') = lit ''new york'' \<and>
   zone_info runtime_with_failing_clock (lit ''America/New_York'') =
     Inr (ZoneInfo (lit ''America/New_York'')) \<and>
   datetime_now runtime_with_failing_clock (ZoneInfo (lit ''America/New_York'')) =
     Inl (Exception (lit ''[Errno 22] Invalid argument'')) \<and>
   get_current_time runtime_with_failing_clock (lit ''new york'') =
     Inr [(lit ''status'', lit ''error''),
          (lit ''error_message'',
             lit ''Error getting time for new york: [Errno 22] Invalid argument'')]"
proof -
  have l1: "lower (unicode runtime_without_tzdata) (lit ''New York'') = lit ''new york''"
    by (rule lower_New_York)
  have z1: "zone_info runtime_without_tzdata (lit ''America/New_York'') =
     Inl (Exception (lit [CHR 0x27] @ lit ''No time zone found with key America/New_York'' @
       lit [CHR 0x27]))"
    by (simp add: runtime_without_tzdata_def lit_def)
  have l2: "lower (unicode runtime_with_failing_clock) (lit ''new york'') = lit ''new york''"
    by (rule lower_new_york)
  have z2: "zone_info runtime_with_failing_clock (lit ''America/New_York'') =
     Inr (ZoneInfo (lit ''America/New_York''))"
    by (simp add: runtime_with_failing_clock_def)
  have c2: "datetime_now runtime_with_failing_clock (ZoneInfo (lit ''America/New_York'')) =
     Inl (Exception (lit ''[Errno 22] Invalid argument''))"
    by (simp add: runtime_with_failing_clock_def)
  have r1: "get_current_time runtime_without_tzdata (lit ''New York'') =
     Inr [(lit ''status'', lit ''error''),
          (lit ''error_message'',
             lit ''Error getting time for New York: 'No time zone found with key America/New_York'' @
             lit [CHR 0x27])]"
    using get_current_time_catches_failure [OF l1 disjI1, OF z1] by (simp add: lit_def)
  have r2: "get_current_time runtime_with_failing_clock (lit ''new york'') =
     Inr [(lit ''status'', lit ''error''),
          (lit ''error_message'',
             lit ''Error getting time for new york: [Errno 22] Invalid argument'')]"
    using get_current_time_catches_failure
      [OF l2 disjI2, of "Exception (lit ''[Errno 22] Invalid argument'')"]
      z2 c2 by (simp add: lit_def)
  from l1 z1 r1 l2 z2 c2 r2 show ?thesis
    by simp
qed

text \<open>
  C6. For every two input strings whose lowercases are both \<open>new york\<close>,
  \<open>get_weather\<close> returns the same result, the success result with the fixed report;
  \<open>New York\<close> and \<open>NEW YORK\<close> are such strings in every runtime.
\<close>

theorem get_weather_case_insensitive:
  "(lower (unicode rt) c1 = lit ''new york'' \<and> lower (unicode rt) c2 = lit ''new york'' \<longrightarrow>
      get_weather rt c1 = get_weather rt c2 \<and>
      get_weather rt c1 =
        Inr [(lit ''status'', lit ''success''),
             (lit ''report'',
                lit ''The weather in New York is sunny with a temperature of 25 degrees Celsius (77 degrees Fahrenheit).'')]) \<and>
   get_weather rt (lit ''New York'') = get_weather rt (lit ''NEW YORK'') \<and>
   get_weather rt (lit ''NEW YORK'') =
     Inr [(lit ''status'', lit ''success''),
          (lit ''report'',
             lit ''The weather in New York is sunny with a temperature of 25 degrees Celsius (77 degrees Fahrenheit).'')]"
  by (simp add: weather_supported lower_New_York lower_NEW_YORK) (simp add: lit_def)

theorem get_weather_case_insensitive_witness:
  "lower (unicode sample_runtime) (lit ''New York'') = lit ''new york'' \<and>
   lower (unicode sample_runtime) (lit ''NEW YOR'' @ [0x212A]) = lit ''new york'' \<and>
   get_weather sample_runtime (lit ''New York'') =
     get_weather sample_runtime (lit ''NEW YOR'' @ [0x212A])"
proof -
  have a: "lower (unicode sample_runtime) (lit ''New York'') = lit ''new york''"
    by (rule lower_New_York)
  have b: "lower (unicode sample_runtime) (lit ''NEW YOR'' @ [0x212A]) = lit ''new york''"
    by (simp add: sample_runtime_def lower_Kelvin)
  from a b get_weather_case_insensitive
    [of sample_runtime "lit ''New York''" "lit ''NEW YOR'' @ [0x212A]"]
  show ?thesis
    by simp
qed

text \<open>
  C7. For every input string \<open>city\<close> whose lowercase is \<open>new york\<close> and every clock
  reading \<open>now\<close> supplied to the time computation (the zone has resolved and the clock
  read has returned the \<open>datetime\<close> object \<open>now\<close>), \<open>get_current_time(city)\<close>
  returns the success result. Its report is \<open>The current time in <city> is\<close> followed
  by \<open>now\<close> formatted with the pattern \<open>%Y-%m-%d %H:%M:%S %Z%z\<close>, which is a date of the
  form \<open>YYYY-MM-DD\<close>, a space, a time of the form \<open>HH:MM:SS\<close>, a space, the zone's
  abbreviation and its offset from UTC.
\<close>

theorem get_current_time_success_report:
  assumes "lower (unicode rt) city = lit ''new york''"
    and "zone_info rt (lit ''America/New_York'') = Inr tz"
    and "datetime_now rt tz = Inr now"
    and "valid_datetime now"
  shows
    "get_current_time rt city =
       Inr [(lit ''status'', lit ''success''),
            (lit ''report'',
               lit ''The current time in '' @ city @ lit '' is '' @
               strftime now ''%Y-%m-%d %H:%M:%S %Z%z'')] \<and>
     strftime now ''%Y-%m-%d %H:%M:%S %Z%z'' =
       strftime now ''%Y-%m-%d'' @ lit '' '' @ strftime now ''%H:%M:%S'' @ lit '' '' @
       tzname now @ format_utcoffset (utcoffset now) \<and>
     is_date (strftime now ''%Y-%m-%d'') \<and>
     is_time (strftime now ''%H:%M:%S'')"
  using assms
  by (simp only: time_read strftime_pattern strftime_zone is_date_strftime is_time_strftime
      simp_thms)

theorem get_current_time_success_report_witness:
  "lower (unicode sample_runtime) (lit ''new york'') = lit ''new york'' \<and>
   zone_info sample_runtime (lit ''America/New_York'') = Inr (ZoneInfo (lit ''America/New_York'')) \<and>
   datetime_now sample_runtime (ZoneInfo (lit ''America/New_York'')) = Inr sample_now \<and>
   valid_datetime sample_now \<and>
   get_current_time sample_runtime (lit ''new york'') =
     Inr [(lit ''status'', lit ''success''),
          (lit ''report'', lit ''The current time in new york is 2024-03-09 07:05:00 EST-0500'')] \<and>
   strftime sample_now ''%Y-%m-%d'' = lit ''2024-03-09'' \<and>
   is_date (lit ''2024-03-09'') \<and>
   strftime sample_now ''%H:%M:%S'' = lit ''07:05:00'' \<and>
   is_time (lit ''07:05:00'')"
proof -
  have l: "lower (unicode sample_runtime) (lit ''new york'') = lit ''new york''"
    by (rule lower_new_york)
  have z: "zone_info sample_runtime (lit ''America/New_York'') =
      Inr (ZoneInfo (lit ''America/New_York''))"
    by (simp add: sample_runtime_def)
  have c: "datetime_now sample_runtime (ZoneInfo (lit ''America/New_York'')) = Inr sample_now"
    by (simp add: sample_runtime_def)
  have d: "strftime sample_now ''%Y-%m-%d'' = lit ''2024-03-09''"
    by (simp add: strftime.simps directive_def sample_now_def zero_pad_2 zero_pad_4 lit_def)
  have t: "strftime sample_now ''%H:%M:%S'' = lit ''07:05:00''"
    by (simp add: strftime.simps directive_def sample_now_def zero_pad_2 lit_def)
  have r: "lit ''The current time in '' @ lit ''new york'' @ lit '' is '' @
      lit ''2024-03-09 07:05:00 EST-0500'' =
      lit ''The current time in new york is 2024-03-09 07:05:00 EST-0500''"
    by (simp add: lit_def)
  from get_current_time_success_report [OF l z c valid_sample_now] l z c valid_sample_now d t r
  show ?thesis
    by (simp add: strftime_sample_now)
qed



text \<open>
  C10. For every input string \<open>city\<close> whose lowercase is \<open>new york\<close>,
  \<open>get_current_time(city)\<close> returns, and a success report of it begins with
  \<open>The current time in <city> is\<close>, the city written as the caller wrote it, whereas
  the report of \<open>get_weather(city)\<close> is the fixed sentence, which says \<open>New York\<close>.
\<close>

theorem get_current_time_echoes_city:
  assumes "lower (unicode rt) city = lit ''new york''"
  shows
    "(\<exists>d. get_current_time rt city = Inr d \<and>
        (map_of d (lit ''status'') = Some (lit ''success'') \<longrightarrow>
           (\<exists>report. map_of d (lit ''report'') = Some report \<and>
              prefix (lit ''The current time in '' @ city @ lit '' is '') report))) \<and>
     (\<exists>w. get_weather rt city = Inr w \<and>
        map_of w (lit ''report'') =
          Some (lit ''The weather in New York is sunny with a temperature of 25 degrees Celsius (77 degrees Fahrenheit).''))"
proof
  show "\<exists>d. get_current_time rt city = Inr d \<and>
        (map_of d (lit ''status'') = Some (lit ''success'') \<longrightarrow>
           (\<exists>report. map_of d (lit ''report'') = Some report \<and>
              prefix (lit ''The current time in '' @ city @ lit '' is '') report))"
  proof (cases "zone_info rt (lit ''America/New_York'')")
    case (Inl e)
    with assms show ?thesis
      by (simp add: time_zone_fails keys_distinct)
  next
    case (Inr tz)
    show ?thesis
    proof (cases "datetime_now rt tz")
      case (Inl e)
      with assms Inr show ?thesis
        by (simp add: time_clock_fails keys_distinct)
    next
      case now: (Inr now)
      with assms Inr show ?thesis
        by (simp add: time_read keys_distinct)
    qed
  qed
  have "lit ''The weather in New York is sunny with a temperature of 25 degrees'' @
      lit '' Celsius (77 degrees Fahrenheit).'' =
      lit ''The weather in New York is sunny with a temperature of 25 degrees Celsius (77 degrees Fahrenheit).''"
    by (simp add: lit_def)
  with assms show "\<exists>w. get_weather rt city = Inr w \<and>
        map_of w (lit ''report'') =
          Some (lit ''The weather in New York is sunny with a temperature of 25 degrees Celsius (77 degrees Fahrenheit).'')"
    by (simp add: weather_supported keys_distinct)
qed

theorem get_current_time_echoes_city_witness:
  "lower (unicode sample_runtime) (lit ''NEW YORK'') = lit ''new york'' \<and>
   get_current_time sample_runtime (lit ''NEW YORK'') =
     Inr [(lit ''status'', lit ''success''),
          (lit ''report'', lit ''The current time in NEW YORK is 2024-03-09 07:05:00 EST-0500'')] \<and>
   prefix (lit ''The current time in NEW YORK is '')
     (lit ''The current time in NEW YORK is 2024-03-09 07:05:00 EST-0500'') \<and>
   (\<exists>w. get_weather sample_runtime (lit ''NEW YORK'') = Inr w \<and>
      map_of w (lit ''report'') =
        Some (lit ''The weather in New York is sunny with a temperature of 25 degrees Celsius (77 degrees Fahrenheit).''))"
proof -
  have l: "lower (unicode sample_runtime) (lit ''NEW YORK'') = lit ''new york''"
    by (rule lower_NEW_YORK)
  have g: "get_current_time sample_runtime (lit ''NEW YORK'') =
     Inr [(lit ''status'', lit ''success''),
          (lit ''report'', lit ''The current time in NEW YORK is 2024-03-09 07:05:00 EST-0500'')]"
  proof -
    have z: "zone_info sample_runtime (lit ''America/New_York'') =
        Inr (ZoneInfo (lit ''America/New_York''))"
      by (simp add: sample_runtime_def)
    have c: "datetime_now sample_runtime (ZoneInfo (lit ''America/New_York'')) = Inr sample_now"
      by (simp add: sample_runtime_def)
    show ?thesis
      by (simp add: time_read [OF l z c] strftime_sample_now) (simp add: lit_def)
  qed
  have p: "lit ''The current time in '' @ lit ''NEW YORK'' @ lit '' is '' =
      lit ''The current time in NEW YORK is ''"
    by (simp add: lit_def)
  from get_current_time_echoes_city [OF l] l g p show ?thesis
    by (simp add: keys_distinct)
qed

end
